theory Spec2Isabelle
  imports
    Main
    "HOL-Library.Word"
    "HOL-Library.Multiset"
    "HOL-Library.Char_ord"
    "HOL-Library.List_Lexorder"
begin

unbundle bit_operations_syntax

section \<open>Bytes, checksums and little-endian integers\<close>

text \<open>
  A Go \<open>byte\<close> is an 8-bit word and a \<open>[]byte\<close> a list of them. A checksum is Go's
  \<open>[32]byte\<close>; its zero value (what a map lookup of a missing key and an empty
  \<open>[32]byte{}\<close> literal give) is thirty-two zero bytes.
\<close>

type_synonym byte = "8 word"

type_synonym checksum = "byte list"

definition zero_checksum :: checksum where
  "zero_checksum = replicate 32 0"

text \<open>\<open>binary.LittleEndian.PutUint32\<close> and \<open>binary.LittleEndian.Uint32\<close>.\<close>

definition PutUint32 :: "32 word \<Rightarrow> byte list" where
  "PutUint32 v = [ucast v, ucast (drop_bit 8 v), ucast (drop_bit 16 v), ucast (drop_bit 24 v)]"

definition Uint32 :: "byte list \<Rightarrow> 32 word" where
  "Uint32 b = ucast (b ! 0) OR push_bit 8 (ucast (b ! 1)) OR push_bit 16 (ucast (b ! 2))
     OR push_bit 24 (ucast (b ! 3))"

section \<open>repository/state: the repository index\<close>

definition VERSION :: "32 word" where
  "VERSION = 100"

text \<open>\<open>time.Time\<close> is kept as a number of nanoseconds; the state never computes with it.\<close>

record Metadata =
  Version :: "32 word"
  CreationTime :: int
  Extends :: "checksum list"

record Location =
  Packfile :: "64 word"
  Offset :: "32 word"
  Length :: "32 word"

text \<open>
  The mutexes of the Go struct guard against concurrent callers and hold no data; the
  model is the sequential behaviour of each method, which takes the state and returns
  the state it leaves behind. \<open>dirty\<close> is the \<open>int32\<close> the atomic operations act on.
\<close>

record State =
  checksumToId :: "checksum \<rightharpoonup> 64 word"
  IdToChecksum :: "64 word \<rightharpoonup> checksum"
  Chunks :: "64 word \<rightharpoonup> Location"
  Objects :: "64 word \<rightharpoonup> Location"
  Files :: "64 word \<rightharpoonup> Location"
  Directories :: "64 word \<rightharpoonup> Location"
  Blobs :: "64 word \<rightharpoonup> Location"
  Metadata :: Metadata
  dirty :: "32 word"

datatype error =
  InvalidStateData
  | InvalidStateVersion "32 word"
  | External string

text \<open>\<open>New()\<close>; the argument is what \<open>time.Now()\<close> returns.\<close>

definition New :: "int \<Rightarrow> State" where
  "New now =
     \<lparr>checksumToId = Map.empty, IdToChecksum = Map.empty, Chunks = Map.empty,
      Objects = Map.empty, Files = Map.empty, Directories = Map.empty, Blobs = Map.empty,
      Metadata = \<lparr>Version = VERSION, CreationTime = now, Extends = []\<rparr>,
      dirty = 0\<rparr>"

text \<open>
  Go's \<open>range\<close> over a map visits the keys in an order the language leaves open. A
  loop over a map takes that order as a list of keys \<open>ks\<close>; a key of the list that the
  map does not hold is skipped. Theorems about such loops quantify over the order.
\<close>

definition range_map :: "'k list \<Rightarrow> ('k \<rightharpoonup> 'v) \<Rightarrow> ('k \<Rightarrow> 'v \<Rightarrow> 's \<Rightarrow> 's) \<Rightarrow> 's \<Rightarrow> 's" where
  "range_map ks m body s =
     fold (\<lambda>k acc. case m k of None \<Rightarrow> acc | Some v \<Rightarrow> body k v acc) ks s"

definition rebuildChecksums :: "64 word list \<Rightarrow> State \<Rightarrow> State" where
  "rebuildChecksums ks st =
     st\<lparr>checksumToId :=
          range_map ks (IdToChecksum st) (\<lambda>ident checksum m. m(checksum \<mapsto> ident)) Map.empty\<rparr>"

text \<open>\<open>len\<close> of a map is the number of its keys; \<open>uint64(...)\<close> is \<open>of_nat\<close>.\<close>

definition getOrCreateIdForChecksum :: "State \<Rightarrow> checksum \<Rightarrow> 64 word \<times> State" where
  "getOrCreateIdForChecksum st checksum =
     (case checksumToId st checksum of
        Some ident \<Rightarrow> (ident, st)
      | None \<Rightarrow>
          (let newID = (of_nat (card (dom (IdToChecksum st))) :: 64 word)
           in (newID,
               st\<lparr>checksumToId := (checksumToId st)(checksum \<mapsto> newID),
                  IdToChecksum := (IdToChecksum st)(newID \<mapsto> checksum)\<rparr>)))"

text \<open>Reading a Go map at a missing key gives the zero value of the value type.\<close>

definition lookup_checksum :: "(64 word \<rightharpoonup> checksum) \<Rightarrow> 64 word \<Rightarrow> checksum" where
  "lookup_checksum m k = (case m k of None \<Rightarrow> zero_checksum | Some c \<Rightarrow> c)"

subsection \<open>Lookups\<close>

type_synonym subpart = "checksum \<times> 32 word \<times> 32 word \<times> bool"

definition GetSubpartForChunk :: "State \<Rightarrow> checksum \<Rightarrow> subpart \<times> State" where
  "GetSubpartForChunk st chunkChecksum =
     (case getOrCreateIdForChecksum st chunkChecksum of
        (chunkID, st1) \<Rightarrow>
          (case Chunks st1 chunkID of
             None \<Rightarrow> ((zero_checksum, 0, 0, False), st1)
           | Some sp \<Rightarrow>
               ((lookup_checksum (IdToChecksum st1) (Packfile sp), Offset sp, Length sp, True),
                st1)))"

definition GetSubpartForObject :: "State \<Rightarrow> checksum \<Rightarrow> subpart \<times> State" where
  "GetSubpartForObject st objectChecksum =
     (case getOrCreateIdForChecksum st objectChecksum of
        (objectID, st1) \<Rightarrow>
          (case Objects st1 objectID of
             None \<Rightarrow> ((zero_checksum, 0, 0, False), st1)
           | Some sp \<Rightarrow>
               ((lookup_checksum (IdToChecksum st1) (Packfile sp), Offset sp, Length sp, True),
                st1)))"

definition GetSubpartForFile :: "State \<Rightarrow> checksum \<Rightarrow> subpart \<times> State" where
  "GetSubpartForFile st checksum =
     (case getOrCreateIdForChecksum st checksum of
        (fileID, st1) \<Rightarrow>
          (case Files st1 fileID of
             None \<Rightarrow> ((zero_checksum, 0, 0, False), st1)
           | Some sp \<Rightarrow>
               ((lookup_checksum (IdToChecksum st1) (Packfile sp), Offset sp, Length sp, True),
                st1)))"

definition GetSubpartForDirectory :: "State \<Rightarrow> checksum \<Rightarrow> subpart \<times> State" where
  "GetSubpartForDirectory st checksum =
     (case getOrCreateIdForChecksum st checksum of
        (directoryID, st1) \<Rightarrow>
          (case Directories st1 directoryID of
             None \<Rightarrow> ((zero_checksum, 0, 0, False), st1)
           | Some sp \<Rightarrow>
               ((lookup_checksum (IdToChecksum st1) (Packfile sp), Offset sp, Length sp, True),
                st1)))"

definition GetSubpartForBlob :: "State \<Rightarrow> checksum \<Rightarrow> subpart \<times> State" where
  "GetSubpartForBlob st checksum =
     (case getOrCreateIdForChecksum st checksum of
        (blobID, st1) \<Rightarrow>
          (case Blobs st1 blobID of
             None \<Rightarrow> ((zero_checksum, 0, 0, False), st1)
           | Some sp \<Rightarrow>
               ((lookup_checksum (IdToChecksum st1) (Packfile sp), Offset sp, Length sp, True),
                st1)))"

subsection \<open>Existence checks\<close>

definition ChunkExists :: "State \<Rightarrow> checksum \<Rightarrow> bool \<times> State" where
  "ChunkExists st chunkChecksum =
     (case getOrCreateIdForChecksum st chunkChecksum of
        (chunkID, st1) \<Rightarrow> (if Chunks st1 chunkID = None then False else True, st1))"

definition ObjectExists :: "State \<Rightarrow> checksum \<Rightarrow> bool \<times> State" where
  "ObjectExists st objectChecksum =
     (case getOrCreateIdForChecksum st objectChecksum of
        (objectID, st1) \<Rightarrow> (if Objects st1 objectID = None then False else True, st1))"

definition FileExists :: "State \<Rightarrow> checksum \<Rightarrow> bool \<times> State" where
  "FileExists st checksum =
     (case getOrCreateIdForChecksum st checksum of
        (checksumID, st1) \<Rightarrow> (if Files st1 checksumID = None then False else True, st1))"

definition DirectoryExists :: "State \<Rightarrow> checksum \<Rightarrow> bool \<times> State" where
  "DirectoryExists st checksum =
     (case getOrCreateIdForChecksum st checksum of
        (checksumID, st1) \<Rightarrow> (if Directories st1 checksumID = None then False else True, st1))"

text \<open>\<open>BlobExists\<close> takes the blobs' mutex and then reads \<open>st.Directories\<close>.\<close>

definition BlobExists :: "State \<Rightarrow> checksum \<Rightarrow> bool \<times> State" where
  "BlobExists st checksum =
     (case getOrCreateIdForChecksum st checksum of
        (checksumID, st1) \<Rightarrow> (if Directories st1 checksumID = None then False else True, st1))"

subsection \<open>The dirty flag\<close>

definition Dirty :: "State \<Rightarrow> bool" where
  "Dirty st = (dirty st \<noteq> 0)"

definition ResetDirty :: "State \<Rightarrow> State" where
  "ResetDirty st = st\<lparr>dirty := 0\<rparr>"

subsection \<open>Registration\<close>

definition SetPackfileForChunk ::
  "State \<Rightarrow> checksum \<Rightarrow> checksum \<Rightarrow> 32 word \<Rightarrow> 32 word \<Rightarrow> State" where
  "SetPackfileForChunk st packfileChecksum chunkChecksum packfileOffset chunkLength =
     (case getOrCreateIdForChecksum st packfileChecksum of
        (packfileID, st1) \<Rightarrow>
          (case getOrCreateIdForChecksum st1 chunkChecksum of
             (chunkID, st2) \<Rightarrow>
               (if Chunks st2 chunkID = None
                then st2\<lparr>Chunks := (Chunks st2)(chunkID \<mapsto>
                            \<lparr>Packfile = packfileID, Offset = packfileOffset,
                             Length = chunkLength\<rparr>),
                         dirty := 1\<rparr>
                else st2)))"

definition SetPackfileForObject ::
  "State \<Rightarrow> checksum \<Rightarrow> checksum \<Rightarrow> 32 word \<Rightarrow> 32 word \<Rightarrow> State" where
  "SetPackfileForObject st packfileChecksum objectChecksum packfileOffset chunkLength =
     (case getOrCreateIdForChecksum st packfileChecksum of
        (packfileID, st1) \<Rightarrow>
          (case getOrCreateIdForChecksum st1 objectChecksum of
             (objectID, st2) \<Rightarrow>
               (if Objects st2 objectID = None
                then st2\<lparr>Objects := (Objects st2)(objectID \<mapsto>
                            \<lparr>Packfile = packfileID, Offset = packfileOffset,
                             Length = chunkLength\<rparr>),
                         dirty := 1\<rparr>
                else st2)))"

text \<open>
  The next three test their own map (\<open>st.Files\<close>, \<open>st.Directories\<close>, \<open>st.Blobs\<close>)
  and then assign into \<open>st.Objects\<close>, as the source does.
\<close>

definition SetPackfileForFile ::
  "State \<Rightarrow> checksum \<Rightarrow> checksum \<Rightarrow> 32 word \<Rightarrow> 32 word \<Rightarrow> State" where
  "SetPackfileForFile st packfileChecksum fileChecksum packfileOffset chunkLength =
     (case getOrCreateIdForChecksum st packfileChecksum of
        (packfileID, st1) \<Rightarrow>
          (case getOrCreateIdForChecksum st1 fileChecksum of
             (fileID, st2) \<Rightarrow>
               (if Files st2 fileID = None
                then st2\<lparr>Objects := (Objects st2)(fileID \<mapsto>
                            \<lparr>Packfile = packfileID, Offset = packfileOffset,
                             Length = chunkLength\<rparr>),
                         dirty := 1\<rparr>
                else st2)))"

definition SetPackfileForDirectory ::
  "State \<Rightarrow> checksum \<Rightarrow> checksum \<Rightarrow> 32 word \<Rightarrow> 32 word \<Rightarrow> State" where
  "SetPackfileForDirectory st packfileChecksum directoryChecksum packfileOffset chunkLength =
     (case getOrCreateIdForChecksum st packfileChecksum of
        (packfileID, st1) \<Rightarrow>
          (case getOrCreateIdForChecksum st1 directoryChecksum of
             (directoryID, st2) \<Rightarrow>
               (if Directories st2 directoryID = None
                then st2\<lparr>Objects := (Objects st2)(directoryID \<mapsto>
                            \<lparr>Packfile = packfileID, Offset = packfileOffset,
                             Length = chunkLength\<rparr>),
                         dirty := 1\<rparr>
                else st2)))"

definition SetPackfileForBlob ::
  "State \<Rightarrow> checksum \<Rightarrow> checksum \<Rightarrow> 32 word \<Rightarrow> 32 word \<Rightarrow> State" where
  "SetPackfileForBlob st packfileChecksum blobChecksum packfileOffset chunkLength =
     (case getOrCreateIdForChecksum st packfileChecksum of
        (packfileID, st1) \<Rightarrow>
          (case getOrCreateIdForChecksum st1 blobChecksum of
             (blobID, st2) \<Rightarrow>
               (if Blobs st2 blobID = None
                then st2\<lparr>Objects := (Objects st2)(blobID \<mapsto>
                            \<lparr>Packfile = packfileID, Offset = packfileOffset,
                             Length = chunkLength\<rparr>),
                         dirty := 1\<rparr>
                else st2)))"

subsection \<open>Lineage and merge\<close>

definition Extends_state :: "State \<Rightarrow> checksum \<Rightarrow> State" where
  "Extends_state st stateID =
     st\<lparr>Metadata := (Metadata st)\<lparr>Extends := Extends (Metadata st) @ [stateID]\<rparr>\<rparr>"

text \<open>
  \<open>Merge\<close> ranges over the five maps of the delta state in turn. The record holds the
  order in which each \<open>range\<close> visits its keys. \<open>stateID\<close> is not used by the source.
\<close>

record MergeOrder =
  chunksOrder :: "64 word list"
  objectsOrder :: "64 word list"
  filesOrder :: "64 word list"
  directoriesOrder :: "64 word list"
  blobsOrder :: "64 word list"

definition merge_entry ::
  "(State \<Rightarrow> checksum \<Rightarrow> checksum \<Rightarrow> 32 word \<Rightarrow> 32 word \<Rightarrow> State) \<Rightarrow> State
     \<Rightarrow> 64 word \<Rightarrow> Location \<Rightarrow> State \<Rightarrow> State" where
  "merge_entry setPackfile deltaState deltaChecksumID subpart st =
     (let packfileChecksum = lookup_checksum (IdToChecksum deltaState) (Packfile subpart);
          deltaChecksum = lookup_checksum (IdToChecksum deltaState) deltaChecksumID
      in setPackfile st packfileChecksum deltaChecksum (Offset subpart) (Length subpart))"

definition Merge :: "MergeOrder \<Rightarrow> State \<Rightarrow> checksum \<Rightarrow> State \<Rightarrow> State" where
  "Merge ord st stateID deltaState =
     (let st1 = range_map (chunksOrder ord) (Chunks deltaState)
                  (merge_entry SetPackfileForChunk deltaState) st;
          st2 = range_map (objectsOrder ord) (Objects deltaState)
                  (merge_entry SetPackfileForObject deltaState) st1;
          st3 = range_map (filesOrder ord) (Files deltaState)
                  (merge_entry SetPackfileForFile deltaState) st2;
          st4 = range_map (directoriesOrder ord) (Directories deltaState)
                  (merge_entry SetPackfileForDirectory deltaState) st3
      in range_map (blobsOrder ord) (Blobs deltaState)
           (merge_entry SetPackfileForBlob deltaState) st4)"

subsection \<open>Serialization\<close>

text \<open>
  \<open>msgpack.Marshal\<close> and \<open>msgpack.Unmarshal\<close> belong to a library outside the
  repository; both functions take them as arguments. \<open>Unmarshal\<close> fills a zero
  \<open>State\<close>, so the state it returns has the unexported fields at their zero values.
  \<open>NewFromBytes\<close> also takes the order in which \<open>rebuildChecksums\<close> ranges over
  \<open>IdToChecksum\<close>.
\<close>

definition Serialize :: "(State \<Rightarrow> error + byte list) \<Rightarrow> State \<Rightarrow> error + byte list" where
  "Serialize Marshal st =
     (case Marshal st of
        Inl err \<Rightarrow> Inl err
      | Inr serialized \<Rightarrow> Inr (serialized @ PutUint32 (Version (Metadata st))))"

definition NewFromBytes ::
  "(byte list \<Rightarrow> error + State) \<Rightarrow> 64 word list \<Rightarrow> byte list \<Rightarrow> error + State" where
  "NewFromBytes Unmarshal ks serialized =
     (if length serialized < 4 then Inl InvalidStateData
      else
        (let body = take (length serialized - 4) serialized;
             versionBytes = drop (length serialized - 4) serialized;
             version = Uint32 versionBytes
         in if version \<noteq> VERSION then Inl (InvalidStateVersion version)
            else
              (case Unmarshal body of
                 Inl err \<Rightarrow> Inl err
               | Inr st \<Rightarrow> Inr (rebuildChecksums ks st))))"

section \<open>snapshot: the session and its packer channel\<close>

text \<open>
  The snapshot package calls into packages whose code is not part of the sources at hand:
  the repository (\<open>Encode\<close>, \<open>Checksum\<close>, \<open>PutPackfile\<close>), the packfile builder
  (\<open>SerializeData\<close>, \<open>SerializeIndex\<close>, \<open>SerializeFooter\<close>) and two methods of the
  state that this version of the state does not have (\<open>SetPackfileForData\<close>,
  \<open>SetPackfileForSnapshot\<close>). They are the fields of \<open>Env\<close>, and every function below
  takes an \<open>Env\<close>. Fields whose names clash with earlier ones carry a suffix.
\<close>

datatype BlobType =
  TYPE_SNAPSHOT | TYPE_CHUNK | TYPE_OBJECT | TYPE_FILE | TYPE_DIRECTORY | TYPE_DATA

record IndexEntry =
  Type_idx :: BlobType
  Checksum_idx :: checksum
  Offset_idx :: "32 word"
  Length_idx :: "32 word"

record Footer =
  Version_footer :: "32 word"

record PackFile =
  Index :: "IndexEntry list"
  Footer :: Footer

record 'b Env =
  Encode :: "byte list \<Rightarrow> error + byte list"
  Checksum :: "byte list \<Rightarrow> byte list"
  PutPackfile_repo :: "checksum \<Rightarrow> byte list \<Rightarrow> 'b \<Rightarrow> error + 'b"
  SerializeData :: "PackFile \<Rightarrow> error + byte list"
  SerializeIndex :: "PackFile \<Rightarrow> error + byte list"
  SerializeFooter :: "PackFile \<Rightarrow> error + byte list"
  SetPackfileForData :: "State \<Rightarrow> checksum \<Rightarrow> checksum \<Rightarrow> 32 word \<Rightarrow> 32 word \<Rightarrow> State"
  SetPackfileForSnapshot :: "State \<Rightarrow> checksum \<Rightarrow> checksum \<Rightarrow> 32 word \<Rightarrow> 32 word \<Rightarrow> State"

record Statistics =
  ChunksTransferCount :: "64 word"
  ChunksTransferSize :: "64 word"
  DataTransferCount :: "64 word"
  DataTransferSize :: "64 word"
  ObjectsTransferCount :: "64 word"
  ObjectsTransferSize :: "64 word"
  VFSFilesTransferCount :: "64 word"
  VFSFilesTransferSize :: "64 word"
  VFSDirectoriesTransferCount :: "64 word"
  VFSDirectoriesTransferSize :: "64 word"
  PackfilesCount :: "64 word"
  PackfilesSize :: "64 word"
  PackfilesTransferCount :: "64 word"
  PackfilesTransferSize :: "64 word"

record PackerMsg =
  Timestamp :: int
  Type_msg :: BlobType
  Checksum_msg :: checksum
  Data :: "byte list"

text \<open>
  A buffered Go channel: the messages waiting in it, its capacity, and whether \<open>close\<close>
  has been called on it.
\<close>

record Chan =
  buffer :: "PackerMsg list"
  capacity :: nat
  closed :: bool

text \<open>
  The session. \<open>repository\<close> is the contents of the repository's backend and
  \<open>repositoryState\<close> the state that \<open>snap.Repository().State()\<close> points to.
\<close>

record 'b Snapshot =
  repository :: 'b
  repositoryState :: State
  stateDelta :: State
  statistics :: Statistics
  packerChan :: Chan

text \<open>
  How a call ends: it returns a value, it panics, or it blocks on a full channel until
  a worker receives.
\<close>

datatype panic =
  SendOnClosedChannel
  | CloseOfClosedChannel
  | CouldNotSerializePackFileData error
  | CouldNotSerializePackFileIndex error
  | CouldNotSerializePackFileFooter error
  | CouldNotWritePackFile

datatype 'a outcome = Returned 'a | Panicked panic | Blocked

text \<open>
  The send statement \<open>snap.packerChan <- msg\<close>: a send on a closed channel is a
  run-time panic; otherwise the message is queued when the buffer has room.
\<close>

definition send_packerChan ::
  "'b Snapshot \<Rightarrow> PackerMsg \<Rightarrow> error option outcome \<times> 'b Snapshot" where
  "send_packerChan snap msg =
     (let ch = packerChan snap
      in if closed ch then (Panicked SendOnClosedChannel, snap)
         else if length (buffer ch) < capacity ch
         then (Returned None, snap\<lparr>packerChan := ch\<lparr>buffer := buffer ch @ [msg]\<rparr>\<rparr>)
         else (Blocked, snap))"

text \<open>The statement \<open>close(snapshot.packerChan)\<close> of \<open>Commit\<close>.\<close>

definition close_packerChan :: "'b Snapshot \<Rightarrow> unit outcome \<times> 'b Snapshot" where
  "close_packerChan snap =
     (if closed (packerChan snap) then (Panicked CloseOfClosedChannel, snap)
      else (Returned (), snap\<lparr>packerChan := (packerChan snap)\<lparr>closed := True\<rparr>\<rparr>))"

text \<open>The six \<open>Put*\<close> operations; \<open>now\<close> is what \<open>time.Now()\<close> returns.\<close>

definition PutHeader ::
  "'b Env \<Rightarrow> int \<Rightarrow> 'b Snapshot \<Rightarrow> checksum \<Rightarrow> byte list
     \<Rightarrow> error option outcome \<times> 'b Snapshot" where
  "PutHeader env now snap checksum data =
     (case Encode env data of
        Inl err \<Rightarrow> (Returned (Some err), snap)
      | Inr encoded \<Rightarrow>
          send_packerChan snap
            \<lparr>Timestamp = now, Type_msg = TYPE_SNAPSHOT, Checksum_msg = checksum,
             Data = encoded\<rparr>)"

definition PutChunk ::
  "'b Env \<Rightarrow> int \<Rightarrow> 'b Snapshot \<Rightarrow> checksum \<Rightarrow> byte list
     \<Rightarrow> error option outcome \<times> 'b Snapshot" where
  "PutChunk env now snap checksum data =
     (case Encode env data of
        Inl err \<Rightarrow> (Returned (Some err), snap)
      | Inr encoded \<Rightarrow>
          (let stats = statistics snap;
               stats1 = stats\<lparr>ChunksTransferCount := ChunksTransferCount stats + 1\<rparr>;
               stats2 = stats1\<lparr>ChunksTransferSize :=
                          ChunksTransferSize stats1 + of_nat (length data)\<rparr>
           in send_packerChan (snap\<lparr>statistics := stats2\<rparr>)
                \<lparr>Timestamp = now, Type_msg = TYPE_CHUNK, Checksum_msg = checksum,
                 Data = encoded\<rparr>))"

definition PutData ::
  "'b Env \<Rightarrow> int \<Rightarrow> 'b Snapshot \<Rightarrow> checksum \<Rightarrow> byte list
     \<Rightarrow> error option outcome \<times> 'b Snapshot" where
  "PutData env now snap checksum data =
     (case Encode env data of
        Inl err \<Rightarrow> (Returned (Some err), snap)
      | Inr encoded \<Rightarrow>
          (let stats = statistics snap;
               stats1 = stats\<lparr>DataTransferCount := DataTransferCount stats + 1\<rparr>;
               stats2 = stats1\<lparr>DataTransferSize :=
                          DataTransferSize stats1 + of_nat (length encoded)\<rparr>
           in send_packerChan (snap\<lparr>statistics := stats2\<rparr>)
                \<lparr>Timestamp = now, Type_msg = TYPE_DATA, Checksum_msg = checksum,
                 Data = encoded\<rparr>))"

definition PutObject ::
  "'b Env \<Rightarrow> int \<Rightarrow> 'b Snapshot \<Rightarrow> checksum \<Rightarrow> byte list
     \<Rightarrow> error option outcome \<times> 'b Snapshot" where
  "PutObject env now snap checksum data =
     (case Encode env data of
        Inl err \<Rightarrow> (Returned (Some err), snap)
      | Inr encoded \<Rightarrow>
          (let stats = statistics snap;
               stats1 = stats\<lparr>ObjectsTransferCount := ObjectsTransferCount stats + 1\<rparr>;
               stats2 = stats1\<lparr>ObjectsTransferSize :=
                          ObjectsTransferSize stats1 + of_nat (length encoded)\<rparr>
           in send_packerChan (snap\<lparr>statistics := stats2\<rparr>)
                \<lparr>Timestamp = now, Type_msg = TYPE_OBJECT, Checksum_msg = checksum,
                 Data = encoded\<rparr>))"

definition PutFile ::
  "'b Env \<Rightarrow> int \<Rightarrow> 'b Snapshot \<Rightarrow> checksum \<Rightarrow> byte list
     \<Rightarrow> error option outcome \<times> 'b Snapshot" where
  "PutFile env now snap checksum data =
     (case Encode env data of
        Inl err \<Rightarrow> (Returned (Some err), snap)
      | Inr encoded \<Rightarrow>
          (let stats = statistics snap;
               stats1 = stats\<lparr>VFSFilesTransferCount := VFSFilesTransferCount stats + 1\<rparr>;
               stats2 = stats1\<lparr>VFSFilesTransferSize :=
                          VFSFilesTransferSize stats1 + of_nat (length encoded)\<rparr>
           in send_packerChan (snap\<lparr>statistics := stats2\<rparr>)
                \<lparr>Timestamp = now, Type_msg = TYPE_FILE, Checksum_msg = checksum,
                 Data = encoded\<rparr>))"

definition PutDirectory ::
  "'b Env \<Rightarrow> int \<Rightarrow> 'b Snapshot \<Rightarrow> checksum \<Rightarrow> byte list
     \<Rightarrow> error option outcome \<times> 'b Snapshot" where
  "PutDirectory env now snap checksum data =
     (case Encode env data of
        Inl err \<Rightarrow> (Returned (Some err), snap)
      | Inr encoded \<Rightarrow>
          (let stats = statistics snap;
               stats1 = stats\<lparr>VFSDirectoriesTransferCount :=
                          VFSDirectoriesTransferCount stats + 1\<rparr>;
               stats2 = stats1\<lparr>VFSDirectoriesTransferSize :=
                          VFSDirectoriesTransferSize stats1 + of_nat (length encoded)\<rparr>
           in send_packerChan (snap\<lparr>statistics := stats2\<rparr>)
                \<lparr>Timestamp = now, Type_msg = TYPE_DIRECTORY, Checksum_msg = checksum,
                 Data = encoded\<rparr>))"

subsection \<open>Flushing a packfile\<close>

text \<open>
  \<open>copy(checksum32[:], checksum[:])\<close> into a zeroed \<open>[32]byte\<close>: the first 32 bytes
  of the checksum, padded with zeros when it is shorter.
\<close>

definition copy32 :: "byte list \<Rightarrow> checksum" where
  "copy32 checksum = take 32 checksum @ replicate (32 - length checksum) 0"

text \<open>
  One of the six registration loops at the end of \<open>PutPackfile\<close>: for each checksum
  of the list, the first index entry that carries it (the inner loop stops at
  \<open>break\<close>) is registered in the repository's state and in the session's delta.
\<close>

definition register_locations ::
  "(State \<Rightarrow> checksum \<Rightarrow> checksum \<Rightarrow> 32 word \<Rightarrow> 32 word \<Rightarrow> State) \<Rightarrow> PackFile
     \<Rightarrow> checksum \<Rightarrow> checksum list \<Rightarrow> 'b Snapshot \<Rightarrow> 'b Snapshot" where
  "register_locations setPackfile pack checksum32 checksums snap =
     fold (\<lambda>blobChecksum s.
             case find (\<lambda>chunk. Checksum_idx chunk = blobChecksum) (Index pack) of
               None \<Rightarrow> s
             | Some entry \<Rightarrow>
                 s\<lparr>repositoryState :=
                      setPackfile (repositoryState s) checksum32 blobChecksum
                        (Offset_idx entry) (Length_idx entry),
                   stateDelta :=
                      setPackfile (stateDelta s) checksum32 blobChecksum
                        (Offset_idx entry) (Length_idx entry)\<rparr>)
          checksums snap"

definition PutPackfile ::
  "'b Env \<Rightarrow> 'b Snapshot \<Rightarrow> PackFile \<Rightarrow> checksum list \<Rightarrow> checksum list \<Rightarrow> checksum list
     \<Rightarrow> checksum list \<Rightarrow> checksum list \<Rightarrow> checksum list
     \<Rightarrow> error option outcome \<times> 'b Snapshot" where
  "PutPackfile env snap pack objects chunks files directories datas snapshots =
     (case SerializeData env pack of
        Inl err \<Rightarrow> (Panicked (CouldNotSerializePackFileData err), snap)
      | Inr serializedData \<Rightarrow>
     (case SerializeIndex env pack of
        Inl err \<Rightarrow> (Panicked (CouldNotSerializePackFileIndex err), snap)
      | Inr serializedIndex \<Rightarrow>
     (case SerializeFooter env pack of
        Inl err \<Rightarrow> (Panicked (CouldNotSerializePackFileFooter err), snap)
      | Inr serializedFooter \<Rightarrow>
     (case Encode env serializedIndex of
        Inl err \<Rightarrow> (Returned (Some err), snap)
      | Inr encryptedIndex \<Rightarrow>
     (case Encode env serializedFooter of
        Inl err \<Rightarrow> (Returned (Some err), snap)
      | Inr encryptedFooter \<Rightarrow>
          (let encryptedFooterLength = (of_nat (length encryptedFooter) :: byte);
               versionBytes = PutUint32 (Version_footer (Footer pack));
               serializedPackfile =
                 (((serializedData @ encryptedIndex) @ encryptedFooter) @ versionBytes)
                   @ [encryptedFooterLength];
               checksum32 = copy32 (Checksum env serializedPackfile);
               stats = statistics snap;
               stats1 = stats\<lparr>PackfilesCount := PackfilesCount stats + 1\<rparr>;
               stats2 = stats1\<lparr>PackfilesSize :=
                          PackfilesSize stats1 + of_nat (length serializedPackfile)\<rparr>;
               snap1 = snap\<lparr>statistics := stats2\<rparr>
           in case PutPackfile_repo env checksum32 serializedPackfile (repository snap1) of
                Inl err \<Rightarrow> (Panicked CouldNotWritePackFile, snap1)
              | Inr written \<Rightarrow>
                  (let stats3 = stats2\<lparr>PackfilesTransferCount :=
                                  PackfilesTransferCount stats2 + 1\<rparr>;
                       stats4 = stats3\<lparr>PackfilesTransferSize :=
                                  PackfilesTransferSize stats3
                                    + of_nat (length serializedPackfile)\<rparr>;
                       snap2 = snap1\<lparr>repository := written, statistics := stats4\<rparr>;
                       snap3 = register_locations SetPackfileForChunk pack checksum32
                                 chunks snap2;
                       snap4 = register_locations SetPackfileForObject pack checksum32
                                 objects snap3;
                       snap5 = register_locations SetPackfileForFile pack checksum32
                                 files snap4;
                       snap6 = register_locations SetPackfileForDirectory pack checksum32
                                 directories snap5;
                       snap7 = register_locations (SetPackfileForData env) pack checksum32
                                 datas snap6;
                       snap8 = register_locations (SetPackfileForSnapshot env) pack
                                 checksum32 snapshots snap7
                   in (Returned None, snap8))))))))"

section \<open>snapshot/vfs: file entries\<close>

text \<open>
  A Go slice is \<open>nil\<close> or holds a list, and a pointer is \<open>nil\<close> or points to a
  value: both are options. The types declared in packages outside the sources
  (the record type, the file information, the alternate data streams and the two kinds
  of custom metadata) are type parameters. \<open>Entropy\<close>, a \<open>float64\<close> of the object that
  none of the functions below reads, is left out.
\<close>

record ExtendedAttribute =
  Name :: string
  Value :: "byte list"

record 'ocm Object =
  CustomMetadata :: "'ocm list option"
  Tags :: "string list option"
  ContentType :: string

record ('rt, 'fi, 'ads, 'cm, 'ocm) FileEntry =
  Version_entry :: "32 word"
  ParentPath :: string
  Type_entry :: 'rt
  FileInfo :: 'fi
  SymlinkTarget :: string
  Object :: "'ocm Object option"
  AlternateDataStreams :: "'ads list option"
  SecurityDescriptor :: "byte list option"
  FileAttributes :: "32 word"
  ExtendedAttributes :: "ExtendedAttribute list option"
  CustomMetadata_entry :: "'cm list option"
  Tags_entry :: "string list option"

record ('rt, 'fi) ScanRecord =
  Type_scan :: 'rt
  FileInfo_scan :: 'fi
  Target :: string
  ExtendedAttributes_scan :: "string \<rightharpoonup> byte list"

text \<open>
  \<open>sort.Slice\<close> belongs to Go's library and is not stable; \<open>NewFileEntry\<close> takes it as
  the argument \<open>sort_Slice\<close>. What the library promises of it, for the comparison
  \<open>lt\<close> it is called with: the result is a rearrangement of the slice in which no
  element is \<open>lt\<close> one before it.
\<close>

definition sorts_by :: "('a \<Rightarrow> 'a \<Rightarrow> bool) \<Rightarrow> (('a \<Rightarrow> 'a \<Rightarrow> bool) \<Rightarrow> 'a list \<Rightarrow> 'a list) \<Rightarrow> bool" where
  "sorts_by lt sort_Slice \<longleftrightarrow>
     (\<forall>xs. mset (sort_Slice lt xs) = mset xs
            \<and> sorted_wrt (\<lambda>a b. \<not> lt b a) (sort_Slice lt xs))"

text \<open>
  \<open>NewFileEntry\<close>: \<open>version\<close> is the package's \<open>VERSION\<close> constant and \<open>ks\<close> the order
  in which \<open>range\<close> visits the names of \<open>record.ExtendedAttributes\<close>.
\<close>

definition NewFileEntry ::
  "32 word \<Rightarrow> ((ExtendedAttribute \<Rightarrow> ExtendedAttribute \<Rightarrow> bool) \<Rightarrow> ExtendedAttribute list
       \<Rightarrow> ExtendedAttribute list)
     \<Rightarrow> string list \<Rightarrow> string \<Rightarrow> ('rt, 'fi) ScanRecord
     \<Rightarrow> ('rt, 'fi, 'ads, 'cm, 'ocm) FileEntry" where
  "NewFileEntry version sort_Slice ks parentPath record =
     (let target = (if Target record \<noteq> [] then Target record else []);
          attributes =
            range_map ks (ExtendedAttributes_scan record)
              (\<lambda>name value acc. acc @ [\<lparr>Name = name, Value = value\<rparr>]) [];
          attributes' = sort_Slice (\<lambda>a b. Name a < Name b) attributes
      in \<lparr>Version_entry = version, ParentPath = parentPath, Type_entry = Type_scan record,
          FileInfo = FileInfo_scan record, SymlinkTarget = target, Object = None,
          AlternateDataStreams = None, SecurityDescriptor = None, FileAttributes = 0,
          ExtendedAttributes = Some attributes', CustomMetadata_entry = None,
          Tags_entry = Some []\<rparr>)"

text \<open>\<open>if x == nil { x = make([]T, 0) }\<close>.\<close>

definition make_if_nil :: "'a list option \<Rightarrow> 'a list option" where
  "make_if_nil x = (case x of None \<Rightarrow> Some [] | Some xs \<Rightarrow> Some xs)"

text \<open>\<open>FileEntryFromBytes\<close>; \<open>Unmarshal\<close> is \<open>msgpack.Unmarshal\<close> into a zero entry.\<close>

definition FileEntryFromBytes ::
  "(byte list \<Rightarrow> error + ('rt, 'fi, 'ads, 'cm, 'ocm) FileEntry) \<Rightarrow> byte list
     \<Rightarrow> error + ('rt, 'fi, 'ads, 'cm, 'ocm) FileEntry" where
  "FileEntryFromBytes Unmarshal serialized =
     (case Unmarshal serialized of
        Inl err \<Rightarrow> Inl err
      | Inr f \<Rightarrow>
          (let f1 = (case Object f of
                       None \<Rightarrow> f
                     | Some obj \<Rightarrow>
                         f\<lparr>Object := Some (obj\<lparr>CustomMetadata := make_if_nil (CustomMetadata obj),
                                               Tags := make_if_nil (Tags obj)\<rparr>)\<rparr>);
               f2 = f1\<lparr>AlternateDataStreams := make_if_nil (AlternateDataStreams f1)\<rparr>;
               f3 = f2\<lparr>SecurityDescriptor := make_if_nil (SecurityDescriptor f2)\<rparr>;
               f4 = f3\<lparr>ExtendedAttributes := make_if_nil (ExtendedAttributes f3)\<rparr>;
               f5 = f4\<lparr>CustomMetadata_entry := make_if_nil (CustomMetadata_entry f4)\<rparr>;
               f6 = f5\<lparr>Tags_entry := make_if_nil (Tags_entry f5)\<rparr>
           in Inr f6))"

section \<open>Invariants and sample inputs\<close>

text \<open>
  The invariant of the intern table: the keys of \<open>IdToChecksum\<close> are exactly the ids
  below their number, and \<open>checksumToId\<close> is the inverse of \<open>IdToChecksum\<close>.
\<close>

definition intern_inv :: "State \<Rightarrow> bool" where
  "intern_inv st \<longleftrightarrow>
     dom (IdToChecksum st) = {i. unat i < card (dom (IdToChecksum st))}
     \<and> (\<forall>c i. checksumToId st c = Some i \<longleftrightarrow> IdToChecksum st i = Some c)"

text \<open>A sequence of calls of \<open>getOrCreateIdForChecksum\<close>, one per checksum of the list.\<close>

definition intern_calls :: "State \<Rightarrow> checksum list \<Rightarrow> State" where
  "intern_calls st cs = fold (\<lambda>c s. snd (getOrCreateIdForChecksum s c)) cs st"

text \<open>Three checksums, and a state that holds one file entry, as a stored state may.\<close>

definition packfile_A :: checksum where
  "packfile_A = replicate 32 0xAA"

definition blob_B :: checksum where
  "blob_B = replicate 32 0xBB"

definition packfile_C :: checksum where
  "packfile_C = replicate 32 0xCC"

definition state_with_file :: State where
  "state_with_file =
     (New 0)\<lparr>checksumToId := [packfile_A \<mapsto> 0, blob_B \<mapsto> 1],
             IdToChecksum := [0 \<mapsto> packfile_A, 1 \<mapsto> blob_B],
             Files := [1 \<mapsto> \<lparr>Packfile = 0, Offset = 7, Length = 9\<rparr>]\<rparr>"

definition order_of_state_with_file :: MergeOrder where
  "order_of_state_with_file =
     \<lparr>chunksOrder = [], objectsOrder = [], filesOrder = [1], directoriesOrder = [],
      blobsOrder = []\<rparr>"

definition order_of_empty_state :: MergeOrder where
  "order_of_empty_state =
     \<lparr>chunksOrder = [], objectsOrder = [], filesOrder = [], directoriesOrder = [],
      blobsOrder = []\<rparr>"

section \<open>Facts about the repository index\<close>

lemma Uint32_PutUint32: "Uint32 (PutUint32 v) = v"
  unfolding Uint32_def PutUint32_def
  apply simp
  apply (rule bit_word_eqI)
  subgoal for n
    by (cases "n < 8"; cases "n < 16"; cases "n < 24") (auto simp add: bit_simps not_less)
  done

lemma length_PutUint32: "length (PutUint32 v) = 4"
  by (simp add: PutUint32_def)

lemmas state_eval =
  New_def getOrCreateIdForChecksum_def lookup_checksum_def zero_checksum_def Let_def
  packfile_A_def blob_B_def packfile_C_def

subsection \<open>The intern table\<close>

lemma getOrCreate_existing:
  "checksumToId st c = Some i \<Longrightarrow> getOrCreateIdForChecksum st c = (i, st)"
  by (simp add: getOrCreateIdForChecksum_def)

lemma getOrCreate_fresh:
  "checksumToId st c = None \<Longrightarrow>
   getOrCreateIdForChecksum st c =
     (of_nat (card (dom (IdToChecksum st))),
      st\<lparr>checksumToId := (checksumToId st)(c \<mapsto> of_nat (card (dom (IdToChecksum st)))),
         IdToChecksum := (IdToChecksum st)(of_nat (card (dom (IdToChecksum st))) \<mapsto> c)\<rparr>)"
  by (simp add: getOrCreateIdForChecksum_def Let_def)

lemma unat_fresh_id: "n < 2 ^ 64 \<Longrightarrow> unat (of_nat n :: 64 word) = n"
  by (simp add: unat_of_nat)

lemma contiguous_insert:
  assumes "n < 2 ^ 64"
  shows "insert (of_nat n :: 64 word) {i. unat i < n} = {i. unat i < Suc n}"
proof -
  have "unat i < Suc n \<longleftrightarrow> i = of_nat n \<or> unat i < n" for i :: "64 word"
    using unat_fresh_id [OF assms] by (auto simp add: word_unat_eq_iff less_Suc_eq)
  then show ?thesis by auto
qed

lemma intern_inv_New: "intern_inv (New now)"
  by (simp add: intern_inv_def New_def)

lemma intern_inv_step:
  assumes inv: "intern_inv st" and bound: "card (dom (IdToChecksum st)) < 2 ^ 64"
  shows "intern_inv (snd (getOrCreateIdForChecksum st c))"
proof (cases "checksumToId st c")
  case (Some i)
  then show ?thesis using inv by (simp add: getOrCreate_existing)
next
  case None
  define n where "n = card (dom (IdToChecksum st))"
  define w :: "64 word" where "w = of_nat n"
  have dom_eq: "dom (IdToChecksum st) = {i. unat i < n}"
    and inverse: "\<And>c i. checksumToId st c = Some i \<longleftrightarrow> IdToChecksum st i = Some c"
    using inv by (simp_all add: intern_inv_def n_def)
  have unat_w: "unat w = n" using bound by (simp add: w_def n_def unat_fresh_id)
  have "w \<notin> dom (IdToChecksum st)" using unat_w by (simp add: dom_eq)
  then have w_free: "IdToChecksum st w = None" by (simp add: domIff)
  have c_free: "IdToChecksum st i \<noteq> Some c" for i
    using None inverse [of c i] by simp
  have card_new: "card (insert w (dom (IdToChecksum st))) = Suc n"
    using w_free by (simp add: n_def domIff)
  have n_small: "n < 2 ^ 64" using bound by (simp add: n_def)
  have "insert w (dom (IdToChecksum st)) = {i. unat i < Suc n}"
    using contiguous_insert [OF n_small] by (simp add: dom_eq w_def)
  moreover have "((checksumToId st)(c \<mapsto> w)) c' = Some i
      \<longleftrightarrow> ((IdToChecksum st)(w \<mapsto> c)) i = Some c'" for c' i
    using inverse [of c' i] w_free c_free [of i] by auto
  ultimately show ?thesis
    using None card_new by (simp add: getOrCreate_fresh intern_inv_def flip: n_def w_def)
qed

lemma card_intern_step:
  "card (dom (IdToChecksum (snd (getOrCreateIdForChecksum st c))))
     \<le> Suc (card (dom (IdToChecksum st)))"
  by (cases "checksumToId st c")
     (simp_all add: getOrCreate_existing getOrCreate_fresh card_insert_if)

lemma intern_inv_calls:
  "intern_inv st \<Longrightarrow> card (dom (IdToChecksum st)) + length cs < 2 ^ 64
     \<Longrightarrow> intern_inv (intern_calls st cs)"
proof (induction cs arbitrary: st)
  case Nil
  then show ?case by (simp add: intern_calls_def)
next
  case (Cons c cs)
  let ?st' = "snd (getOrCreateIdForChecksum st c)"
  have "intern_inv ?st'" using Cons.prems by (intro intern_inv_step) simp_all
  moreover have "card (dom (IdToChecksum ?st')) + length cs < 2 ^ 64"
    using card_intern_step [of st c] Cons.prems(2) by simp
  ultimately have "intern_inv (intern_calls ?st' cs)" by (rule Cons.IH)
  then show ?case by (simp add: intern_calls_def)
qed

text \<open>
  C6. \<open>getOrCreateIdForChecksum\<close> returns the id of a checksum that is already interned
  and leaves the state as it is; for a new checksum it returns the number of entries of
  \<open>IdToChecksum\<close> as the id and stores both directions. The empty state of \<open>New\<close>
  satisfies the invariant of the intern table (the keys of \<open>IdToChecksum\<close> are exactly
  the ids \<open>0, ..., N - 1\<close> and \<open>checksumToId\<close> is its inverse), and every sequence of
  intern calls keeps it. The number of entries stays below \<open>2 ^ 64\<close>: Go's \<open>len\<close> is an
  \<open>int\<close>, so no map holds that many.
\<close>

theorem intern_table_invariant:
  "(case checksumToId st c of
      Some i \<Rightarrow> getOrCreateIdForChecksum st c = (i, st)
    | None \<Rightarrow>
        getOrCreateIdForChecksum st c =
          (of_nat (card (dom (IdToChecksum st))),
           st\<lparr>checksumToId := (checksumToId st)(c \<mapsto> of_nat (card (dom (IdToChecksum st)))),
              IdToChecksum :=
                (IdToChecksum st)(of_nat (card (dom (IdToChecksum st))) \<mapsto> c)\<rparr>))
   \<and> intern_inv (New now)
   \<and> (intern_inv st0 \<and> card (dom (IdToChecksum st0)) + length cs < 2 ^ 64
        \<longrightarrow> intern_inv (intern_calls st0 cs))"
proof (intro conjI impI)
  show "case checksumToId st c of
      Some i \<Rightarrow> getOrCreateIdForChecksum st c = (i, st)
    | None \<Rightarrow>
        getOrCreateIdForChecksum st c =
          (of_nat (card (dom (IdToChecksum st))),
           st\<lparr>checksumToId := (checksumToId st)(c \<mapsto> of_nat (card (dom (IdToChecksum st)))),
              IdToChecksum :=
                (IdToChecksum st)(of_nat (card (dom (IdToChecksum st))) \<mapsto> c)\<rparr>)"
    by (simp add: getOrCreate_existing getOrCreate_fresh split: option.split)
  show "intern_inv (New now)" by (rule intern_inv_New)
  show "intern_inv (intern_calls st0 cs)"
    if "intern_inv st0 \<and> card (dom (IdToChecksum st0)) + length cs < 2 ^ 64"
    using that by (simp add: intern_inv_calls)
qed

theorem intern_table_invariant_witness:
  "getOrCreateIdForChecksum (New 0) packfile_A =
     (0, (New 0)\<lparr>checksumToId := [packfile_A \<mapsto> 0], IdToChecksum := [0 \<mapsto> packfile_A]\<rparr>)
   \<and> intern_inv (intern_calls (New 0) [packfile_A, blob_B, packfile_A])
   \<and> IdToChecksum (intern_calls (New 0) [packfile_A, blob_B, packfile_A])
        = [0 \<mapsto> packfile_A, 1 \<mapsto> blob_B]"
proof -
  have empty: "checksumToId (New 0) packfile_A = None"
    and small: "card (dom (IdToChecksum (New 0))) + length [packfile_A, blob_B, packfile_A]
                  < 2 ^ 64"
    by (simp_all add: New_def)
  have "IdToChecksum (intern_calls (New 0) [packfile_A, blob_B, packfile_A])
          = [0 \<mapsto> packfile_A, 1 \<mapsto> blob_B]"
    by (simp add: intern_calls_def state_eval)
  then show ?thesis
    using intern_table_invariant [of "New 0" packfile_A 0 "New 0"
        "[packfile_A, blob_B, packfile_A]"] empty small
    by (simp add: New_def)
qed

subsection \<open>Registration, lookup and merge at sample inputs\<close>

text \<open>
  C1. Registering a checksum as a file, a directory or a blob in an empty state and
  looking it up under the same kind finds nothing: \<open>GetSubpartForFile\<close>,
  \<open>GetSubpartForDirectory\<close> and \<open>GetSubpartForBlob\<close> answer with the zero checksum and
  \<open>false\<close>. The location has gone to the objects, where \<open>GetSubpartForObject\<close> finds it.
\<close>

theorem set_file_directory_blob_not_read_back:
  "fst (GetSubpartForFile (SetPackfileForFile (New 0) packfile_A blob_B 7 9) blob_B)
     = (zero_checksum, 0, 0, False)
   \<and> fst (GetSubpartForDirectory (SetPackfileForDirectory (New 0) packfile_A blob_B 7 9) blob_B)
     = (zero_checksum, 0, 0, False)
   \<and> fst (GetSubpartForBlob (SetPackfileForBlob (New 0) packfile_A blob_B 7 9) blob_B)
     = (zero_checksum, 0, 0, False)
   \<and> fst (GetSubpartForObject (SetPackfileForFile (New 0) packfile_A blob_B 7 9) blob_B)
     = (packfile_A, 7, 9, True)"
  by (simp add: state_eval GetSubpartForFile_def SetPackfileForFile_def
      GetSubpartForDirectory_def SetPackfileForDirectory_def GetSubpartForBlob_def
      SetPackfileForBlob_def GetSubpartForObject_def)

text \<open>
  C2. After a checksum has been registered as a blob, a file or a directory in an empty
  state, \<open>BlobExists\<close>, \<open>FileExists\<close> and \<open>DirectoryExists\<close> deny it, and
  \<open>ObjectExists\<close> affirms a checksum that was only ever registered as a blob.
\<close>

theorem exists_after_registration:
  "fst (BlobExists (SetPackfileForBlob (New 0) packfile_A blob_B 7 9) blob_B) = False
   \<and> fst (FileExists (SetPackfileForFile (New 0) packfile_A blob_B 7 9) blob_B) = False
   \<and> fst (DirectoryExists (SetPackfileForDirectory (New 0) packfile_A blob_B 7 9) blob_B)
       = False
   \<and> fst (ObjectExists (SetPackfileForBlob (New 0) packfile_A blob_B 7 9) blob_B) = True"
  by (simp add: state_eval BlobExists_def FileExists_def DirectoryExists_def ObjectExists_def
      SetPackfileForFile_def SetPackfileForDirectory_def SetPackfileForBlob_def)

text \<open>
  C3. Merging the empty state into \<open>state_with_file\<close> leaves the file entry under the
  files; merging \<open>state_with_file\<close> into the empty state puts it under the objects and
  leaves the files empty. The two merges disagree on the files and on the objects.
\<close>

theorem merge_not_commutative_on_files:
  "fst (GetSubpartForFile
          (Merge order_of_empty_state state_with_file zero_checksum (New 0)) blob_B)
     = (packfile_A, 7, 9, True)
   \<and> fst (GetSubpartForFile
          (Merge order_of_state_with_file (New 0) zero_checksum state_with_file) blob_B)
     = (zero_checksum, 0, 0, False)
   \<and> fst (GetSubpartForObject
          (Merge order_of_empty_state state_with_file zero_checksum (New 0)) blob_B)
     = (zero_checksum, 0, 0, False)
   \<and> fst (GetSubpartForObject
          (Merge order_of_state_with_file (New 0) zero_checksum state_with_file) blob_B)
     = (packfile_A, 7, 9, True)"
  by (simp add: state_eval Merge_def range_map_def merge_entry_def state_with_file_def
      order_of_state_with_file_def order_of_empty_state_def GetSubpartForFile_def
      GetSubpartForObject_def SetPackfileForFile_def)

text \<open>
  C5. Registering the same checksum as a file twice: the first call stores the location
  under the objects and sets the dirty flag; after \<open>ResetDirty\<close> the second call, with
  another packfile, offset and length, overwrites that entry and sets the flag again.
\<close>

theorem file_registered_twice:
  "Objects (SetPackfileForFile (New 0) packfile_A blob_B 7 9) 1
     = Some \<lparr>Packfile = 0, Offset = 7, Length = 9\<rparr>
   \<and> Objects (SetPackfileForFile
                (ResetDirty (SetPackfileForFile (New 0) packfile_A blob_B 7 9))
                packfile_C blob_B 11 13) 1
     = Some \<lparr>Packfile = 2, Offset = 11, Length = 13\<rparr>
   \<and> Dirty (SetPackfileForFile
              (ResetDirty (SetPackfileForFile (New 0) packfile_A blob_B 7 9))
              packfile_C blob_B 11 13)
   \<and> Files (SetPackfileForFile (New 0) packfile_A blob_B 7 9) = Map.empty"
  by (simp add: state_eval SetPackfileForFile_def ResetDirty_def Dirty_def)

end
